theory Spec2Isabelle
  imports Complex_Main "HOL-Library.AList"
begin

section \<open>The data-source gateway of \<^verbatim>\<open>src/MCP/cdata-server/src/index.ts\<close>\<close>

text \<open>
  The gateway is the class \<^verbatim>\<open>CDataMCPServer\<close>: a registry \<^verbatim>\<open>dataSources\<close> (a JavaScript
  \<^verbatim>\<open>Map\<close> from a name to a \<^verbatim>\<open>DataSource\<close>) and one method per tool. The methods of the
  registry and of the four connectors, and \<^verbatim>\<open>transformData\<close>, are each embedded as a HOL
  function of the same name. What a method reads from outside the class
  (the file system, the SQLite binding, the HTTP client, the stream runtime) is an explicit
  argument of the function; what it throws is a value of type \<open>error\<close>; the registry is
  passed in and handed back.
\<close>

subsection \<open>JavaScript values\<close>

text \<open>
  Arguments of type \<^verbatim>\<open>any\<close> and parsed documents are JSON values. \<open>JUndefined\<close> is the
  value of an absent argument or property. \<open>JNative\<close> stands for a value of the host that
  is not JSON (a built-in function or prototype object reached through the prototype
  chain). An object is the list of its own enumerable properties in the order the engine
  enumerates them. Numbers are rationals: every number a JSON text denotes is one.
  Strings are lists of 8-bit characters.
\<close>

datatype jsval =
    JUndefined
  | JNull
  | JBool bool
  | JNum rat
  | JStr string
  | JArr "jsval list"
  | JObj "(string \<times> jsval) list"
  | JNative

text \<open>The truth value a condition such as \<^verbatim>\<open>if (x)\<close> or \<^verbatim>\<open>!x\<close> sees.\<close>

fun truthy :: "jsval \<Rightarrow> bool" where
  "truthy JUndefined = False"
| "truthy JNull = False"
| "truthy (JBool b) = b"
| "truthy (JNum n) = (n \<noteq> 0)"
| "truthy (JStr s) = (s \<noteq> [])"
| "truthy (JArr xs) = True"
| "truthy (JObj kvs) = True"
| "truthy JNative = True"

text \<open>An optional string argument or property: absent and empty are both falsy.\<close>

definition truthy_string :: "string option \<Rightarrow> bool" where
  "truthy_string s = (case s of None \<Rightarrow> False | Some v \<Rightarrow> v \<noteq> [])"

subsection \<open>Descriptors and the registry\<close>

text \<open>
  \<^verbatim>\<open>config\<close> is \<^verbatim>\<open>any\<close> in the source; its three properties are typed here as the input
  schema of \<^verbatim>\<open>register_data_source\<close> declares them (\<^verbatim>\<open>path\<close> and \<^verbatim>\<open>url\<close> strings,
  \<^verbatim>\<open>headers\<close> an object), each possibly absent. The field \<^verbatim>\<open>type\<close> is a plain string: the
  source casts it (\<^verbatim>\<open>type as any\<close>) and never compares it with the declared union.
  Properties a caller adds beyond these three are outside the model, and so is their echo
  in the answer of \<^verbatim>\<open>register_data_source\<close>.
\<close>

record config =
  path :: "string option"
  url :: "string option"
  headers :: jsval

record DataSource =
  type :: string
  name :: string
  config :: config

text \<open>
  A \<^verbatim>\<open>Map\<close> keeps its entries in insertion order; \<^verbatim>\<open>set\<close> on a present key replaces the
  value in place and on an absent key appends. \<^verbatim>\<open>size\<close> is the length of the list.
\<close>

type_synonym registry = "(string \<times> DataSource) list"

definition map_has :: "registry \<Rightarrow> string \<Rightarrow> bool" where
  "map_has dataSources k = (map_of dataSources k \<noteq> None)"

definition map_get :: "registry \<Rightarrow> string \<Rightarrow> DataSource option" where
  "map_get dataSources k = map_of dataSources k"

definition map_set :: "registry \<Rightarrow> string \<Rightarrow> DataSource \<Rightarrow> registry" where
  "map_set dataSources k v = AList.update k v dataSources"

definition map_size :: "registry \<Rightarrow> nat" where
  "map_size dataSources = length dataSources"

subsection \<open>Errors\<close>

text \<open>
  One constructor per \<^verbatim>\<open>throw\<close> or \<^verbatim>\<open>reject\<close> of the class, carrying what the message
  interpolates. \<open>TypeError\<close> is the engine's own exception for a property read on
  \<^verbatim>\<open>undefined\<close> or \<^verbatim>\<open>null\<close>; \<open>HostError\<close> is an exception of \<^verbatim>\<open>fs.readFileSync\<close> or
  \<^verbatim>\<open>JSON.parse\<close>. \<open>message\<close> is the text of the error: the template of the throw site for
  the errors of the class; for a TypeError the engine words it, and only its beginning is
  given.
\<close>

datatype error =
    AlreadyExists string
  | PathRequired string
  | FileNotFound string
  | UrlRequired
  | NotFound string
  | NotSqlite string
  | NotApi string
  | NotCsv string
  | NotJson string
  | OpenFailed string
  | QueryFailed string
  | ApiFailed string
  | CsvFailed string
  | TypeError
  | HostError string

fun message :: "error \<Rightarrow> string" where
  "message (AlreadyExists n) = ''Data source '' @ [CHR 0x27] @ n @ [CHR 0x27] @ '' already exists''"
| "message (PathRequired t) = [CHR 0x27] @ ''path'' @ [CHR 0x27] @ '' is required for '' @ t @ '' data sources''"
| "message (FileNotFound p) = ''File not found: '' @ p"
| "message UrlRequired = [CHR 0x27] @ ''url'' @ [CHR 0x27] @ '' is required for API data sources''"
| "message (NotFound n) = ''Data source '' @ [CHR 0x27] @ n @ [CHR 0x27] @ '' not found''"
| "message (NotSqlite n) = ''Data source '' @ [CHR 0x27] @ n @ [CHR 0x27] @ '' is not a SQLite database''"
| "message (NotApi n) = ''Data source '' @ [CHR 0x27] @ n @ [CHR 0x27] @ '' is not an API''"
| "message (NotCsv n) = ''Data source '' @ [CHR 0x27] @ n @ [CHR 0x27] @ '' is not a CSV file''"
| "message (NotJson n) = ''Data source '' @ [CHR 0x27] @ n @ [CHR 0x27] @ '' is not a JSON file''"
| "message (OpenFailed m) = ''Failed to open database: '' @ m"
| "message (QueryFailed m) = ''Query failed: '' @ m"
| "message (ApiFailed m) = ''API request failed: '' @ m"
| "message (CsvFailed m) = ''Failed to read CSV: '' @ m"
| "message TypeError = ''Cannot read properties of undefined''"
| "message (HostError m) = m"

text \<open>
  The source throws plain \<^verbatim>\<open>Error\<close> objects; the two classes of registration failure the
  specification names are told apart by the throw site.
\<close>

fun is_duplicate_name :: "error \<Rightarrow> bool" where
  "is_duplicate_name (AlreadyExists n) = True"
| "is_duplicate_name e = False"

fun is_invalid_config :: "error \<Rightarrow> bool" where
  "is_invalid_config (PathRequired t) = True"
| "is_invalid_config (FileNotFound p) = True"
| "is_invalid_config UrlRequired = True"
| "is_invalid_config e = False"

subsection \<open>\<^verbatim>\<open>registerDataSource\<close>\<close>

definition config_value :: "config \<Rightarrow> jsval" where
  "config_value c = JObj
     ((case path c of None \<Rightarrow> [] | Some p \<Rightarrow> [(''path'', JStr p)]) @
      (case url c of None \<Rightarrow> [] | Some u \<Rightarrow> [(''url'', JStr u)]) @
      (case headers c of JUndefined \<Rightarrow> [] | h \<Rightarrow> [(''headers'', h)]))"

text \<open>
  \<open>existsSync\<close> is \<^verbatim>\<open>fs.existsSync\<close>: the file system at the time of the call. The
  \<^verbatim>\<open>switch\<close> has three arms and no \<^verbatim>\<open>default\<close>. Every \<^verbatim>\<open>throw\<close> comes before
  \<^verbatim>\<open>this.dataSources.set\<close>, so a failing call hands the registry back as it was.
\<close>

definition registerDataSource ::
  "(string \<Rightarrow> bool) \<Rightarrow> registry \<Rightarrow> string \<Rightarrow> string \<Rightarrow> config \<Rightarrow> (error + jsval) \<times> registry" where
  "registerDataSource existsSync dataSources nm ty cfg =
    (if map_has dataSources nm then (Inl (AlreadyExists nm), dataSources)
     else
       let dataSource = \<lparr>type = ty, name = nm, config = cfg\<rparr>;
           thrown =
             (if ty = ''sqlite'' \<or> ty = ''csv'' \<or> ty = ''json'' then
                (case path cfg of
                   None \<Rightarrow> Some (PathRequired ty)
                 | Some p \<Rightarrow>
                     if p = [] then Some (PathRequired ty)
                     else if \<not> existsSync p then Some (FileNotFound p)
                     else None)
              else if ty = ''api'' then
                (if \<not> truthy_string (url cfg) then Some UrlRequired else None)
              else None)
       in case thrown of
            Some e \<Rightarrow> (Inl e, dataSources)
          | None \<Rightarrow>
              (Inr (JObj
                 [(''success'', JBool True),
                  (''message'', JStr (''Data source '' @ [CHR 0x27] @ nm @ [CHR 0x27] @ '' registered successfully'')),
                  (''dataSource'', JObj
                     [(''name'', JStr nm), (''type'', JStr ty), (''config'', config_value cfg)])]),
               map_set dataSources nm dataSource))"

subsection \<open>\<^verbatim>\<open>listDataSources\<close>\<close>

definition listDataSources :: "registry \<Rightarrow> (error + jsval) \<times> registry" where
  "listDataSources dataSources =
    (let sources = map (\<lambda>(k, ds). JObj
           [(''name'', JStr (name ds)), (''type'', JStr (type ds)),
            (''config'', config_value (config ds))]) dataSources
     in (Inr (JObj [(''count'', JNum (of_nat (length sources))), (''dataSources'', JArr sources)]),
         dataSources))"

subsection \<open>\<^verbatim>\<open>transformData\<close>\<close>

text \<open>
  The method looks the name up and returns a fixed object; it calls no connector and never
  writes to the registry. An absent \<^verbatim>\<open>field\<close> is \<^verbatim>\<open>undefined\<close> in the object.
\<close>

definition transformData ::
  "registry \<Rightarrow> string \<Rightarrow> string \<Rightarrow> string option \<Rightarrow> (error + jsval) \<times> registry" where
  "transformData dataSources sourceName operation field =
    (case map_get dataSources sourceName of
       None \<Rightarrow> (Inl (NotFound sourceName), dataSources)
     | Some dataSource \<Rightarrow>
         (Inr (JObj
            [(''success'', JBool True),
             (''message'', JStr (''Transformation '' @ [CHR 0x27] @ operation @ [CHR 0x27] @
                '' would be applied to data source '' @ [CHR 0x27] @ sourceName @ [CHR 0x27])),
             (''operation'', JStr operation),
             (''field'', (case field of None \<Rightarrow> JUndefined | Some f \<Rightarrow> JStr f)),
             (''note'', JStr ''This is a demo - full implementation would require fetching and processing actual data'')]),
          dataSources))"

subsection \<open>Property reads\<close>

text \<open>
  \<open>array_index k\<close> is the index a property key denotes when it is the canonical decimal
  form of a natural number (\<^verbatim>\<open>"0"\<close>, \<^verbatim>\<open>"17"\<close>; not \<^verbatim>\<open>"01"\<close>, \<^verbatim>\<open>"+1"\<close>, \<^verbatim>\<open>""\<close>).
\<close>

definition char_code :: "char \<Rightarrow> nat" where
  "char_code c = of_char c"

definition is_digit :: "char \<Rightarrow> bool" where
  "is_digit c = (char_code CHR ''0'' \<le> char_code c \<and> char_code c \<le> char_code CHR ''9'')"

definition digit_value :: "char \<Rightarrow> nat" where
  "digit_value c = char_code c - char_code CHR ''0''"

definition array_index :: "string \<Rightarrow> nat option" where
  "array_index k =
    (if k \<noteq> [] \<and> list_all is_digit k \<and> (k = ''0'' \<or> hd k \<noteq> CHR ''0'')
     then Some (foldl (\<lambda>a c. 10 * a + digit_value c) 0 k)
     else None)"

text \<open>
  The own properties of a value: the listed ones of an object; \<^verbatim>\<open>length\<close> and the
  elements of an array; \<^verbatim>\<open>length\<close> and the one-character strings of a string. Lengths and
  indices of a string count the 8-bit characters of the model; the engine counts UTF-16
  units, and the two agree on ASCII text.
\<close>

fun own_property :: "jsval \<Rightarrow> string \<Rightarrow> jsval option" where
  "own_property (JObj kvs) k = map_of kvs k"
| "own_property (JArr xs) k =
     (if k = ''length'' then Some (JNum (of_nat (length xs)))
      else case array_index k of
             None \<Rightarrow> None
           | Some i \<Rightarrow> if i < length xs then Some (xs ! i) else None)"
| "own_property (JStr s) k =
     (if k = ''length'' then Some (JNum (of_nat (length s)))
      else case array_index k of
             None \<Rightarrow> None
           | Some i \<Rightarrow> if i < length s then Some (JStr [s ! i]) else None)"
| "own_property v k = None"




subsection \<open>String operations of the path evaluator\<close>






text \<open>The property key a number becomes when it is used in \<^verbatim>\<open>v[idx]\<close>.\<close>

fun string_of_nat :: "nat \<Rightarrow> string" where
  "string_of_nat n =
    (if n < 10 then [''0123456789'' ! n]
     else string_of_nat (n div 10) @ [''0123456789'' ! (n mod 10)])"


subsection \<open>\<^verbatim>\<open>readJson\<close>\<close>




subsection \<open>\<^verbatim>\<open>fetchApiData\<close>\<close>

text \<open>
  The object handed to \<^verbatim>\<open>axios\<close> (the local \<^verbatim>\<open>config\<close> of the method). The template literal
  renders an absent \<^verbatim>\<open>url\<close> as the text \<^verbatim>\<open>undefined\<close>. \<^verbatim>\<open>params\<close> and \<^verbatim>\<open>data\<close> are set only
  under their conditions.
\<close>

definition request_config :: "DataSource \<Rightarrow> string \<Rightarrow> string \<Rightarrow> jsval \<Rightarrow> jsval \<Rightarrow> jsval" where
  "request_config dataSource endpoint method params body =
    JObj ([(''method'', JStr method),
           (''url'', JStr ((case url (config dataSource) of None \<Rightarrow> ''undefined'' | Some u \<Rightarrow> u) @ endpoint)),
           (''headers'', (if truthy (headers (config dataSource)) then headers (config dataSource) else JObj []))]
          @ (if truthy params then [(''params'', params)] else [])
          @ (if truthy body \<and> (method = ''POST'' \<or> method = ''PUT'') then [(''data'', body)] else []))"

text \<open>
  What \<^verbatim>\<open>axios\<close> gives back: a response (status, headers, data), or a failure with the
  status text of the response, if there was one, and the message of the error.
\<close>

datatype axios_response = Response jsval jsval jsval

datatype axios_error = AxiosError "string option" string

text \<open>
  \<open>axios\<close> is the HTTP client. The result is what the method returns or throws, the list of
  the objects it passed to \<^verbatim>\<open>axios\<close> (the outgoing requests, none when the method throws
  before the call), and the registry.
\<close>

definition fetchApiData ::
  "(jsval \<Rightarrow> axios_error + axios_response) \<Rightarrow>
   registry \<Rightarrow> string \<Rightarrow> string \<Rightarrow> string \<Rightarrow> jsval \<Rightarrow> jsval \<Rightarrow>
   (error + jsval) \<times> jsval list \<times> registry" where
  "fetchApiData axios dataSources sourceName endpoint method params body =
    (case map_get dataSources sourceName of
       None \<Rightarrow> (Inl (NotFound sourceName), [], dataSources)
     | Some dataSource \<Rightarrow>
         if type dataSource \<noteq> ''api'' then (Inl (NotApi sourceName), [], dataSources)
         else
           (let request = request_config dataSource endpoint method params body
            in case axios request of
                 Inr (Response st hs d) \<Rightarrow>
                   (Inr (JObj [(''success'', JBool True), (''status'', st), (''headers'', hs), (''data'', d)]),
                    [request], dataSources)
               | Inl (AxiosError statusText msg) \<Rightarrow>
                   (Inl (ApiFailed (case statusText of
                                      None \<Rightarrow> msg
                                    | Some t \<Rightarrow> (if t \<noteq> [] then t else msg))),
                    [request], dataSources)))"

subsection \<open>\<^verbatim>\<open>querySql\<close>\<close>

text \<open>
  The method builds a promise whose executor makes two calls on the SQLite binding, one
  after the other: \<^verbatim>\<open>new sqlite3.Database(path, cb)\<close> and \<^verbatim>\<open>db.all(query, [], cb)\<close>. The
  binding runs the callbacks later, the one of the open first. What the method does is
  the sequence of its calls on the binding and on the promise.
\<close>

datatype sql_event =
    DbOpen "string option"
  | DbAll string
  | DbClose
  | Resolve jsval
  | Reject error

text \<open>
  What the binding reports: the error of the open, if any, and what the callback of
  \<^verbatim>\<open>db.all\<close> receives: an error, the rows, or nothing when the binding never runs it.
\<close>

datatype all_outcome = NoCallback | AllError string | AllRows "jsval list"

text \<open>
  The callback of the open rejects and returns; it makes no other call. The callback of
  \<^verbatim>\<open>db.all\<close> calls \<^verbatim>\<open>db.close\<close> and then \<^verbatim>\<open>reject\<close> on an error, \<^verbatim>\<open>db.close\<close> and then
  \<^verbatim>\<open>resolve\<close> on rows.
\<close>

definition executor_events :: "string option \<times> all_outcome \<Rightarrow> string option \<Rightarrow> string \<Rightarrow> sql_event list" where
  "executor_events reported dbPath query =
    [DbOpen dbPath, DbAll query]
    @ (case fst reported of
         None \<Rightarrow> []
       | Some msg \<Rightarrow> [Reject (OpenFailed msg)])
    @ (case snd reported of
         NoCallback \<Rightarrow> []
       | AllError msg \<Rightarrow> [DbClose, Reject (QueryFailed msg)]
       | AllRows rows \<Rightarrow>
           [DbClose,
            Resolve (JObj [(''success'', JBool True),
                           (''rowCount'', JNum (of_nat (length rows))),
                           (''data'', JArr rows)])])"

text \<open>A promise takes the first \<^verbatim>\<open>resolve\<close> or \<^verbatim>\<open>reject\<close>; later ones are ignored.\<close>

fun first_settled :: "sql_event list \<Rightarrow> (error + jsval) option" where
  "first_settled [] = None"
| "first_settled (Resolve v # es) = Some (Inr v)"
| "first_settled (Reject e # es) = Some (Inl e)"
| "first_settled (ev # es) = first_settled es"

text \<open>Whether \<^verbatim>\<open>db.close\<close> is called before the promise is settled.\<close>

fun closed_before_settled :: "sql_event list \<Rightarrow> bool" where
  "closed_before_settled [] = False"
| "closed_before_settled (DbClose # es) = True"
| "closed_before_settled (Resolve v # es) = False"
| "closed_before_settled (Reject e # es) = False"
| "closed_before_settled (ev # es) = closed_before_settled es"

text \<open>
  The result is the settled value of the promise (\<open>None\<close> when it never settles), the
  calls made, and the registry.
\<close>

definition querySql ::
  "(string option \<Rightarrow> string \<Rightarrow> string option \<times> all_outcome) \<Rightarrow>
   registry \<Rightarrow> string \<Rightarrow> string \<Rightarrow> (error + jsval) option \<times> sql_event list \<times> registry" where
  "querySql sqlite3 dataSources sourceName query =
    (case map_get dataSources sourceName of
       None \<Rightarrow> (Some (Inl (NotFound sourceName)), [], dataSources)
     | Some dataSource \<Rightarrow>
         if type dataSource \<noteq> ''sqlite'' then (Some (Inl (NotSqlite sourceName)), [], dataSources)
         else
           (let events = executor_events (sqlite3 (path (config dataSource)) query)
                           (path (config dataSource)) query
            in (first_settled events, events, dataSources)))"

subsection \<open>\<^verbatim>\<open>readCsv\<close>\<close>

text \<open>
  A row is the object the parser builds: its properties in order. \<open>row_get\<close> is the read
  \<^verbatim>\<open>row[key]\<close>, which cannot throw on an object.
\<close>

type_synonym row = "(string \<times> jsval) list"

definition row_get :: "(jsval \<Rightarrow> string \<Rightarrow> jsval option) \<Rightarrow> row \<Rightarrow> string \<Rightarrow> jsval" where
  "row_get proto r k =
    (case map_of r k of
       Some x \<Rightarrow> x
     | None \<Rightarrow> (case proto (JObj r) k of Some x \<Rightarrow> x | None \<Rightarrow> JUndefined))"

text \<open>
  \<^verbatim>\<open>a === b\<close> between a value read from a row and a value of the filter. The two never
  share a reference (one is made by the parser, the other comes with the request), so
  objects, arrays and host values are unequal; primitives are equal when they are the same.
\<close>

fun strict_equals :: "jsval \<Rightarrow> jsval \<Rightarrow> bool" where
  "strict_equals JUndefined JUndefined = True"
| "strict_equals JNull JNull = True"
| "strict_equals (JBool a) (JBool b) = (a = b)"
| "strict_equals (JNum a) (JNum b) = (a = b)"
| "strict_equals (JStr a) (JStr b) = (a = b)"
| "strict_equals a b = False"

text \<open>
  \<^verbatim>\<open>Object.entries\<close> of a truthy value (the only place it is called): the own enumerable
  properties with their keys; none for a number, \<^verbatim>\<open>true\<close> or a host value.
\<close>

fun object_entries :: "jsval \<Rightarrow> (string \<times> jsval) list" where
  "object_entries (JObj kvs) = kvs"
| "object_entries (JArr xs) = zip (map string_of_nat [0..<length xs]) xs"
| "object_entries (JStr s) = zip (map string_of_nat [0..<length s]) (map (\<lambda>c. JStr [c]) s)"
| "object_entries v = []"

text \<open>\<^verbatim>\<open>limit && records.length >= limit\<close>: a limit of zero is falsy, like an absent one.\<close>

definition limit_reached :: "rat option \<Rightarrow> nat \<Rightarrow> bool" where
  "limit_reached limit n = (case limit of None \<Rightarrow> False | Some l \<Rightarrow> l \<noteq> 0 \<and> l \<le> of_nat n)"

text \<open>
  The state of one call: the array \<^verbatim>\<open>records\<close>, whether \<^verbatim>\<open>stream.destroy()\<close> has been
  called on the file stream, whether the parser has failed, and the promise.
\<close>

record csv_state =
  records :: "row list"
  destroyed :: bool
  failed :: bool
  settled :: "(error + jsval) option"

definition settle :: "error + jsval \<Rightarrow> csv_state \<Rightarrow> csv_state" where
  "settle r st = (case settled st of None \<Rightarrow> st\<lparr>settled := Some r\<rparr> | Some old \<Rightarrow> st)"

text \<open>The three listeners, as written.\<close>

definition on_data ::
  "(jsval \<Rightarrow> string \<Rightarrow> jsval option) \<Rightarrow> jsval \<Rightarrow> rat option \<Rightarrow> row \<Rightarrow> csv_state \<Rightarrow> csv_state" where
  "on_data proto filterArg limit r st =
    (let pushed =
           (if truthy filterArg then
              (if list_all (\<lambda>(key, val). strict_equals (row_get proto r key) val) (object_entries filterArg)
               then records st @ [r]
               else records st)
            else records st @ [r])
     in if limit_reached limit (length pushed)
        then st\<lparr>records := pushed, destroyed := True\<rparr>
        else st\<lparr>records := pushed\<rparr>)"

definition on_end :: "csv_state \<Rightarrow> csv_state" where
  "on_end st =
    settle (Inr (JObj [(''success'', JBool True),
                       (''rowCount'', JNum (of_nat (length (records st)))),
                       (''data'', JArr (map JObj (records st)))])) st"

definition on_error :: "string \<Rightarrow> csv_state \<Rightarrow> csv_state" where
  "on_error msg st = settle (Inl (CsvFailed msg)) st"

text \<open>
  The stream runtime, which is Node's and not the repository's. The file stream hands the
  file to the parser chunk by chunk; for each chunk the parser emits the rows completed in
  it, one \<^verbatim>\<open>data\<close> event each, or fails. A file is given by what the parser emits per chunk
  and what it emits when the input ends (a last line without a line break). The contract
  of \<^verbatim>\<open>pipe\<close> and \<^verbatim>\<open>destroy\<close>:
  \<^item> \<^verbatim>\<open>stream.destroy()\<close> acts on the file stream only: no further chunk is read, and the
    file stream never emits \<^verbatim>\<open>end\<close>;
  \<^item> the rows of a chunk already handed to the parser are all emitted;
  \<^item> the parser ends, and emits \<^verbatim>\<open>end\<close>, only when the file stream has emitted \<^verbatim>\<open>end\<close>;
  \<^item> a parser that fails emits \<^verbatim>\<open>error\<close> once and nothing after it.
\<close>

datatype parser_output = Row row | ParserError string

fun emit_all ::
  "(jsval \<Rightarrow> string \<Rightarrow> jsval option) \<Rightarrow> jsval \<Rightarrow> rat option \<Rightarrow> parser_output list \<Rightarrow> csv_state \<Rightarrow> csv_state" where
  "emit_all proto filterArg limit [] st = st"
| "emit_all proto filterArg limit (Row r # outs) st =
     emit_all proto filterArg limit outs (on_data proto filterArg limit r st)"
| "emit_all proto filterArg limit (ParserError msg # outs) st = (on_error msg st)\<lparr>failed := True\<rparr>"

fun pump ::
  "(jsval \<Rightarrow> string \<Rightarrow> jsval option) \<Rightarrow> jsval \<Rightarrow> rat option \<Rightarrow>
   parser_output list list \<Rightarrow> parser_output list \<Rightarrow> csv_state \<Rightarrow> csv_state" where
  "pump proto filterArg limit [] atEnd st =
     (if destroyed st \<or> failed st then st
      else let st' = emit_all proto filterArg limit atEnd st
           in if failed st' then st' else on_end st')"
| "pump proto filterArg limit (chunk # chunks) atEnd st =
     (if destroyed st \<or> failed st then st
      else pump proto filterArg limit chunks atEnd (emit_all proto filterArg limit chunk st))"

text \<open>
  \<open>createReadStream\<close> gives the file at a path in that form. The result is the settled
  value of the promise (\<open>None\<close> when it never settles), the final state of the call, and
  the registry.
\<close>

definition initial_state :: csv_state where
  "initial_state = \<lparr>records = [], destroyed = False, failed = False, settled = None\<rparr>"

definition readCsv ::
  "(string option \<Rightarrow> parser_output list list \<times> parser_output list) \<Rightarrow>
   (jsval \<Rightarrow> string \<Rightarrow> jsval option) \<Rightarrow>
   registry \<Rightarrow> string \<Rightarrow> jsval \<Rightarrow> rat option \<Rightarrow> (error + jsval) option \<times> csv_state \<times> registry" where
  "readCsv createReadStream proto dataSources sourceName filterArg limit =
    (case map_get dataSources sourceName of
       None \<Rightarrow> (Some (Inl (NotFound sourceName)), initial_state, dataSources)
     | Some dataSource \<Rightarrow>
         if type dataSource \<noteq> ''csv'' then (Some (Inl (NotCsv sourceName)), initial_state, dataSources)
         else
           (let file = createReadStream (path (config dataSource));
                final = pump proto filterArg limit (fst file) (snd file) initial_state
            in (settled final, final, dataSources)))"

text \<open>
  For stating what a call returns: the test \<^verbatim>\<open>on_data\<close> applies to a row before pushing it,
  the rows a parser emission carries, and whether an emission is free of failures.
\<close>

definition keeps :: "(jsval \<Rightarrow> string \<Rightarrow> jsval option) \<Rightarrow> jsval \<Rightarrow> row \<Rightarrow> bool" where
  "keeps proto filterArg r =
    (\<not> truthy filterArg \<or>
     list_all (\<lambda>(key, val). strict_equals (row_get proto r key) val) (object_entries filterArg))"

fun the_rows :: "parser_output list \<Rightarrow> row list" where
  "the_rows [] = []"
| "the_rows (Row r # outs) = r # the_rows outs"
| "the_rows (ParserError msg # outs) = the_rows outs"

fun no_error :: "parser_output list \<Rightarrow> bool" where
  "no_error [] = True"
| "no_error (Row r # outs) = no_error outs"
| "no_error (ParserError msg # outs) = False"

definition resolved_with :: "row list \<Rightarrow> jsval" where
  "resolved_with rs =
    JObj [(''success'', JBool True),
          (''rowCount'', JNum (of_nat (length rs))),
          (''data'', JArr (map JObj rs))]"

subsection \<open>Fixed surroundings for concrete runs\<close>

text \<open>
  An engine whose prototypes hold nothing under the keys a run reads, a file system where
  every read returns the same text, and a parser that returns a given document.
\<close>

definition no_proto :: "jsval \<Rightarrow> string \<Rightarrow> jsval option" where
  "no_proto v k = None"






definition csv_source :: DataSource where
  "csv_source = \<lparr>type = ''csv'', name = ''c'',
     config = \<lparr>path = Some ''d.csv'', url = None, headers = JUndefined\<rparr>\<rparr>"

definition sqlite_source :: DataSource where
  "sqlite_source = \<lparr>type = ''sqlite'', name = ''q'',
     config = \<lparr>path = Some ''d.db'', url = None, headers = JUndefined\<rparr>\<rparr>"

text \<open>A file of three rows under the header \<^verbatim>\<open>id\<close>, small enough to arrive in one chunk.\<close>

definition three_rows :: "string option \<Rightarrow> parser_output list list \<times> parser_output list" where
  "three_rows p =
    ([[Row [(''id'', JStr ''1'')], Row [(''id'', JStr ''2'')], Row [(''id'', JStr ''3'')]]], [])"

text \<open>A database that cannot be opened; the binding never runs the queued query.\<close>

definition cannot_open :: "string option \<Rightarrow> string \<Rightarrow> string option \<times> all_outcome" where
  "cannot_open p q = (Some ''SQLITE_CANTOPEN: unable to open database file'', NoCallback)"

text \<open>A database that opens; the query names a column that does not exist.\<close>

definition query_fails :: "string option \<Rightarrow> string \<Rightarrow> string option \<times> all_outcome" where
  "query_fails p q = (None, AllError ''SQLITE_ERROR: no such column: nothing'')"

text \<open>A client that answers every request with status 200 and the request itself as data.\<close>

definition axios_echo :: "jsval \<Rightarrow> axios_error + axios_response" where
  "axios_echo request = Inr (Response (JNum 200) (JObj []) request)"

definition api_source :: DataSource where
  "api_source = \<lparr>type = ''api'', name = ''s'',
     config = \<lparr>path = None, url = Some ''http://h/api'', headers = JUndefined\<rparr>\<rparr>"

section \<open>Properties of the registry\<close>

lemma map_get_set_same: "map_get (map_set dataSources k v) k = Some v"
  by (simp add: map_get_def map_set_def update_conv')

lemma length_update_new:
  "map_of al k = None \<Longrightarrow> length (AList.update k v al) = Suc (length al)"
  by (induction al) auto

lemma map_size_set_new:
  "\<not> map_has dataSources k \<Longrightarrow> map_size (map_set dataSources k v) = Suc (map_size dataSources)"
  by (simp add: map_has_def map_size_def map_set_def length_update_new)

text \<open>
  C3. Registering a name that is already in the registry fails with the duplicate-name
  error, whatever the type and the configuration, and the registry handed back is the one
  passed in: the descriptor stored under the name is still there and the size is the same.
\<close>

theorem register_duplicate_rejected:
  assumes "map_get dataSources nm = Some d"
  shows "fst (registerDataSource existsSync dataSources nm ty cfg) = Inl (AlreadyExists nm)
       \<and> is_duplicate_name (AlreadyExists nm)
       \<and> snd (registerDataSource existsSync dataSources nm ty cfg) = dataSources
       \<and> map_get (snd (registerDataSource existsSync dataSources nm ty cfg)) nm = Some d
       \<and> map_size (snd (registerDataSource existsSync dataSources nm ty cfg)) = map_size dataSources"
  using assms by (simp add: registerDataSource_def map_has_def map_get_def)

theorem register_duplicate_rejected_witness:
  "map_get [(''a'', \<lparr>type = ''csv'', name = ''a'', config = \<lparr>path = Some ''a.csv'', url = None, headers = JUndefined\<rparr>\<rparr>)] ''a''
     = Some \<lparr>type = ''csv'', name = ''a'', config = \<lparr>path = Some ''a.csv'', url = None, headers = JUndefined\<rparr>\<rparr>
   \<and> registerDataSource (\<lambda>p. True)
        [(''a'', \<lparr>type = ''csv'', name = ''a'', config = \<lparr>path = Some ''a.csv'', url = None, headers = JUndefined\<rparr>\<rparr>)]
        ''a'' ''api'' \<lparr>path = None, url = Some ''http://h'', headers = JUndefined\<rparr>
     = (Inl (AlreadyExists ''a''),
        [(''a'', \<lparr>type = ''csv'', name = ''a'', config = \<lparr>path = Some ''a.csv'', url = None, headers = JUndefined\<rparr>\<rparr>)])"
proof -
  have h: "map_get [(''a'', \<lparr>type = ''csv'', name = ''a'', config = \<lparr>path = Some ''a.csv'', url = None, headers = JUndefined\<rparr>\<rparr>)] ''a''
     = Some \<lparr>type = ''csv'', name = ''a'', config = \<lparr>path = Some ''a.csv'', url = None, headers = JUndefined\<rparr>\<rparr>"
    by (simp add: map_get_def)
  from register_duplicate_rejected [OF h, of "\<lambda>p. True" "''api''"
      "\<lparr>path = None, url = Some ''http://h'', headers = JUndefined\<rparr>"]
  show ?thesis using h by (simp add: prod_eq_iff)
qed

text \<open>
  C4. For a name not yet registered, a violated precondition of the kind fails the call
  with an invalid-configuration error before anything is stored: for \<^verbatim>\<open>sqlite\<close>, \<^verbatim>\<open>csv\<close>
  and \<^verbatim>\<open>json\<close> when \<^verbatim>\<open>config.path\<close> is absent (or empty) or names no existing file, for
  \<^verbatim>\<open>api\<close> when \<^verbatim>\<open>config.url\<close> is absent (or empty). The registry, and so its size, is
  unchanged.
\<close>

theorem register_invalid_config_rejected:
  assumes "\<not> map_has dataSources nm"
    and "((ty = ''sqlite'' \<or> ty = ''csv'' \<or> ty = ''json'')
            \<and> (\<not> truthy_string (path cfg) \<or> (\<exists>p. path cfg = Some p \<and> \<not> existsSync p)))
         \<or> (ty = ''api'' \<and> \<not> truthy_string (url cfg))"
  shows "\<exists>e. fst (registerDataSource existsSync dataSources nm ty cfg) = Inl e
       \<and> is_invalid_config e
       \<and> snd (registerDataSource existsSync dataSources nm ty cfg) = dataSources
       \<and> map_size (snd (registerDataSource existsSync dataSources nm ty cfg)) = map_size dataSources"
  using assms
  by (auto simp: registerDataSource_def truthy_string_def split: option.splits)

theorem register_invalid_config_rejected_witness:
  "\<not> map_has [] ''db''
   \<and> registerDataSource (\<lambda>p. p = ''there.db'') [] ''db'' ''sqlite''
        \<lparr>path = Some ''gone.db'', url = None, headers = JUndefined\<rparr>
      = (Inl (FileNotFound ''gone.db''), [])
   \<and> registerDataSource (\<lambda>p. p = ''there.db'') [] ''db'' ''json''
        \<lparr>path = None, url = None, headers = JUndefined\<rparr>
      = (Inl (PathRequired ''json''), [])
   \<and> registerDataSource (\<lambda>p. p = ''there.db'') [] ''db'' ''api''
        \<lparr>path = Some ''there.db'', url = None, headers = JUndefined\<rparr>
      = (Inl UrlRequired, [])"
proof -
  have h: "\<not> map_has [] ''db''" by (simp add: map_has_def)
  have "\<exists>e. fst (registerDataSource (\<lambda>p. p = ''there.db'') [] ''db'' ''sqlite''
        \<lparr>path = Some ''gone.db'', url = None, headers = JUndefined\<rparr>) = Inl e \<and> is_invalid_config e
        \<and> snd (registerDataSource (\<lambda>p. p = ''there.db'') [] ''db'' ''sqlite''
        \<lparr>path = Some ''gone.db'', url = None, headers = JUndefined\<rparr>) = []
        \<and> map_size (snd (registerDataSource (\<lambda>p. p = ''there.db'') [] ''db'' ''sqlite''
        \<lparr>path = Some ''gone.db'', url = None, headers = JUndefined\<rparr>)) = map_size []"
    by (rule register_invalid_config_rejected [OF h]) (simp add: truthy_string_def)
  then show ?thesis using h
    by (simp add: registerDataSource_def truthy_string_def map_has_def)
qed

text \<open>
  C9. The type string itself is never validated. For a name not yet registered and a type
  outside \<^verbatim>\<open>sqlite\<close>, \<^verbatim>\<open>api\<close>, \<^verbatim>\<open>csv\<close>, \<^verbatim>\<open>json\<close>, no arm of the \<^verbatim>\<open>switch\<close> runs: the call
  succeeds whatever the file system and the configuration are, and the descriptor is stored
  with that type.
\<close>

theorem register_unknown_type_accepted:
  assumes "\<not> map_has dataSources nm"
    and "ty \<noteq> ''sqlite''" and "ty \<noteq> ''api''" and "ty \<noteq> ''csv''" and "ty \<noteq> ''json''"
  shows "(\<exists>r. fst (registerDataSource existsSync dataSources nm ty cfg) = Inr r)
       \<and> snd (registerDataSource existsSync dataSources nm ty cfg)
           = map_set dataSources nm \<lparr>type = ty, name = nm, config = cfg\<rparr>
       \<and> map_get (snd (registerDataSource existsSync dataSources nm ty cfg)) nm
           = Some \<lparr>type = ty, name = nm, config = cfg\<rparr>
       \<and> map_size (snd (registerDataSource existsSync dataSources nm ty cfg))
           = Suc (map_size dataSources)"
  using assms
  by (simp add: registerDataSource_def map_get_set_same map_size_set_new)

theorem register_unknown_type_accepted_witness:
  "\<not> map_has [] ''x'' \<and> ''ftp'' \<noteq> ''sqlite'' \<and> ''ftp'' \<noteq> ''api'' \<and> ''ftp'' \<noteq> ''csv'' \<and> ''ftp'' \<noteq> ''json''
   \<and> snd (registerDataSource (\<lambda>p. False) [] ''x'' ''ftp'' \<lparr>path = None, url = None, headers = JUndefined\<rparr>)
       = [(''x'', \<lparr>type = ''ftp'', name = ''x'', config = \<lparr>path = None, url = None, headers = JUndefined\<rparr>\<rparr>)]
   \<and> map_get (snd (registerDataSource (\<lambda>p. False) [] ''x'' ''ftp'' \<lparr>path = None, url = None, headers = JUndefined\<rparr>)) ''x''
       = Some \<lparr>type = ''ftp'', name = ''x'', config = \<lparr>path = None, url = None, headers = JUndefined\<rparr>\<rparr>"
proof -
  have h: "\<not> map_has [] ''x''" by (simp add: map_has_def)
  from register_unknown_type_accepted [OF h, of "''ftp''" "\<lambda>p. False"
      "\<lparr>path = None, url = None, headers = JUndefined\<rparr>"]
  show ?thesis using h by (simp add: map_set_def map_get_def)
qed

text \<open>
  C7. \<^verbatim>\<open>transformData\<close> succeeds for every registered name, of any kind and for any
  operation string, with the acknowledgement object of five fields; it fails exactly when
  the name is not registered; it reads nothing but the registry and hands it back unchanged.
\<close>

theorem transformData_acknowledges:
  "(\<forall>d. map_get dataSources sourceName = Some d \<longrightarrow>
      fst (transformData dataSources sourceName operation field) = Inr (JObj
        [(''success'', JBool True),
         (''message'', JStr (''Transformation '' @ [CHR 0x27] @ operation @ [CHR 0x27] @
            '' would be applied to data source '' @ [CHR 0x27] @ sourceName @ [CHR 0x27])),
         (''operation'', JStr operation),
         (''field'', (case field of None \<Rightarrow> JUndefined | Some f \<Rightarrow> JStr f)),
         (''note'', JStr ''This is a demo - full implementation would require fetching and processing actual data'')]))
   \<and> (isl (fst (transformData dataSources sourceName operation field))
        \<longleftrightarrow> map_get dataSources sourceName = None)
   \<and> (map_get dataSources sourceName = None \<longrightarrow>
        fst (transformData dataSources sourceName operation field) = Inl (NotFound sourceName))
   \<and> snd (transformData dataSources sourceName operation field) = dataSources"
  by (simp add: transformData_def split: option.splits)

theorem transformData_acknowledges_witness:
  "map_get [(''s'', \<lparr>type = ''api'', name = ''s'', config = \<lparr>path = None, url = Some ''u'', headers = JUndefined\<rparr>\<rparr>)] ''s''
     = Some \<lparr>type = ''api'', name = ''s'', config = \<lparr>path = None, url = Some ''u'', headers = JUndefined\<rparr>\<rparr>
   \<and> transformData [(''s'', \<lparr>type = ''api'', name = ''s'', config = \<lparr>path = None, url = Some ''u'', headers = JUndefined\<rparr>\<rparr>)]
        ''s'' ''median'' (Some ''amount'')
     = (Inr (JObj
        [(''success'', JBool True),
         (''message'', JStr (''Transformation '' @ [CHR 0x27] @ ''median'' @ [CHR 0x27] @
            '' would be applied to data source '' @ [CHR 0x27] @ ''s'' @ [CHR 0x27])),
         (''operation'', JStr ''median''),
         (''field'', JStr ''amount''),
         (''note'', JStr ''This is a demo - full implementation would require fetching and processing actual data'')]),
        [(''s'', \<lparr>type = ''api'', name = ''s'', config = \<lparr>path = None, url = Some ''u'', headers = JUndefined\<rparr>\<rparr>)])
   \<and> transformData [] ''s'' ''count'' None = (Inl (NotFound ''s''), [])"
proof -
  have h: "map_get [(''s'', \<lparr>type = ''api'', name = ''s'', config = \<lparr>path = None, url = Some ''u'', headers = JUndefined\<rparr>\<rparr>)] ''s''
     = Some \<lparr>type = ''api'', name = ''s'', config = \<lparr>path = None, url = Some ''u'', headers = JUndefined\<rparr>\<rparr>"
    by (simp add: map_get_def)
  have g: "map_get [] ''s'' = None" by (simp add: map_get_def)
  from transformData_acknowledges
    [of "[(''s'', \<lparr>type = ''api'', name = ''s'', config = \<lparr>path = None, url = Some ''u'', headers = JUndefined\<rparr>\<rparr>)]"
        "''s''" "''median''" "Some ''amount''"]
    transformData_acknowledges [of "[]" "''s''" "''count''" None]
  show ?thesis using h g by (simp add: prod_eq_iff)
qed

section \<open>Properties of the structured-document connector\<close>











section \<open>Properties of the remote API connector\<close>

text \<open>
  C8, as the specification states it, fails: a body can be supplied and yet not attached.
  With the body \<^verbatim>\<open>0\<close> and the method \<^verbatim>\<open>POST\<close>, the one request \<^verbatim>\<open>fetchApiData\<close> passes to
  \<^verbatim>\<open>axios\<close> has the properties \<^verbatim>\<open>method\<close>, \<^verbatim>\<open>url\<close> and \<^verbatim>\<open>headers\<close> and no \<^verbatim>\<open>data\<close>: the test
  \<^verbatim>\<open>body && ...\<close> is on the truth value of the body.
\<close>

theorem fetchApiData_falsy_body_counterexample:
  "fst (snd (fetchApiData axios_echo [(''s'', api_source)] ''s'' ''/users'' ''POST'' JUndefined (JNum 0)))
     = [JObj [(''method'', JStr ''POST''), (''url'', JStr ''http://h/api/users''), (''headers'', JObj [])]]"
  by (simp add: fetchApiData_def map_get_def api_source_def request_config_def axios_echo_def Let_def)

text \<open>
  C8, amended. For every registered \<^verbatim>\<open>api\<close> source, client, endpoint, method, params and
  body, \<^verbatim>\<open>fetchApiData\<close> passes exactly one request to \<^verbatim>\<open>axios\<close>, and what it returns or
  throws is built from the answer to that request. The request carries the body under
  \<^verbatim>\<open>data\<close> exactly when the body is truthy and the method is \<^verbatim>\<open>POST\<close> or \<^verbatim>\<open>PUT\<close>; for any
  other method, \<^verbatim>\<open>GET\<close> and \<^verbatim>\<open>DELETE\<close> among them, any body is ignored. Every object and
  every array is truthy; an absent body, \<^verbatim>\<open>null\<close>, \<^verbatim>\<open>false\<close>, \<^verbatim>\<open>0\<close> and the empty string are
  not. The \<^verbatim>\<open>url\<close> of the request is the stored \<^verbatim>\<open>config.url\<close> followed by the endpoint,
  character for character.
\<close>

theorem fetchApiData_attaches_truthy_body:
  assumes "map_get dataSources sourceName = Some ds"
    and "type ds = ''api''"
    and "url (config ds) = Some u"
  shows "\<exists>request.
          fst (snd (fetchApiData axios dataSources sourceName endpoint httpMethod params body)) = [request]
        \<and> own_property request ''data''
             = (if truthy body \<and> (httpMethod = ''POST'' \<or> httpMethod = ''PUT'') then Some body else None)
        \<and> own_property request ''url'' = Some (JStr (u @ endpoint))
        \<and> own_property request ''method'' = Some (JStr httpMethod)
        \<and> fst (fetchApiData axios dataSources sourceName endpoint httpMethod params body)
             = (case axios request of
                  Inr (Response st hs d) \<Rightarrow>
                    Inr (JObj [(''success'', JBool True), (''status'', st), (''headers'', hs), (''data'', d)])
                | Inl (AxiosError statusText msg) \<Rightarrow>
                    Inl (ApiFailed (case statusText of
                                      None \<Rightarrow> msg
                                    | Some t \<Rightarrow> (if t \<noteq> [] then t else msg))))
        \<and> (((\<exists>kvs. body = JObj kvs) \<or> (\<exists>xs. body = JArr xs)) \<longrightarrow> truthy body)
        \<and> (body \<in> {JUndefined, JNull, JBool False, JNum 0, JStr []} \<longrightarrow> \<not> truthy body)"
proof -
  let ?request = "request_config ds endpoint httpMethod params body"
  have sent: "fst (snd (fetchApiData axios dataSources sourceName endpoint httpMethod params body)) = [?request]"
    using assms by (simp add: fetchApiData_def Let_def split: sum.splits axios_response.splits axios_error.splits)
  have data: "own_property ?request ''data''
      = (if truthy body \<and> (httpMethod = ''POST'' \<or> httpMethod = ''PUT'') then Some body else None)"
    by (simp add: request_config_def)
  have address: "own_property ?request ''url'' = Some (JStr (u @ endpoint))"
    using assms by (simp add: request_config_def)
  have meth: "own_property ?request ''method'' = Some (JStr httpMethod)"
    by (simp add: request_config_def)
  have answer: "fst (fetchApiData axios dataSources sourceName endpoint httpMethod params body)
      = (case axios ?request of
           Inr (Response st hs d) \<Rightarrow>
             Inr (JObj [(''success'', JBool True), (''status'', st), (''headers'', hs), (''data'', d)])
         | Inl (AxiosError statusText msg) \<Rightarrow>
             Inl (ApiFailed (case statusText of
                               None \<Rightarrow> msg
                             | Some t \<Rightarrow> (if t \<noteq> [] then t else msg))))"
    using assms by (simp add: fetchApiData_def Let_def split: sum.splits axios_response.splits axios_error.splits)
  have objects: "((\<exists>kvs. body = JObj kvs) \<or> (\<exists>xs. body = JArr xs)) \<longrightarrow> truthy body"
    by auto
  have scalars: "body \<in> {JUndefined, JNull, JBool False, JNum 0, JStr []} \<longrightarrow> \<not> truthy body"
    by auto
  from sent data address meth answer objects scalars show ?thesis by blast
qed

theorem fetchApiData_attaches_truthy_body_witness:
  "fetchApiData axios_echo [(''s'', api_source)] ''s'' ''/users'' ''POST'' JUndefined (JObj [(''n'', JNum 1)])
     = (Inr (JObj [(''success'', JBool True), (''status'', JNum 200), (''headers'', JObj []),
                   (''data'', JObj [(''method'', JStr ''POST''), (''url'', JStr ''http://h/api/users''),
                                    (''headers'', JObj []), (''data'', JObj [(''n'', JNum 1)])])]),
        [JObj [(''method'', JStr ''POST''), (''url'', JStr ''http://h/api/users''),
               (''headers'', JObj []), (''data'', JObj [(''n'', JNum 1)])]],
        [(''s'', api_source)])
   \<and> (\<exists>request.
         fst (snd (fetchApiData axios_echo [(''s'', api_source)] ''s'' ''/users'' ''GET'' JUndefined
                     (JObj [(''n'', JNum 1)]))) = [request]
       \<and> own_property request ''data'' = None
       \<and> own_property request ''url'' = Some (JStr ''http://h/api/users''))"
proof -
  have 1: "map_get [(''s'', api_source)] ''s'' = Some api_source"
    by (simp add: map_get_def)
  have 2: "type api_source = ''api''"
    by (simp add: api_source_def)
  have 3: "url (config api_source) = Some ''http://h/api''"
    by (simp add: api_source_def)
  from fetchApiData_attaches_truthy_body
    [where axios = axios_echo and endpoint = "''/users''" and httpMethod = "''POST''"
       and params = JUndefined and body = "JObj [(''n'', JNum 1)]", OF 1 2 3]
  have post: "fetchApiData axios_echo [(''s'', api_source)] ''s'' ''/users'' ''POST'' JUndefined (JObj [(''n'', JNum 1)])
     = (Inr (JObj [(''success'', JBool True), (''status'', JNum 200), (''headers'', JObj []),
                   (''data'', JObj [(''method'', JStr ''POST''), (''url'', JStr ''http://h/api/users''),
                                    (''headers'', JObj []), (''data'', JObj [(''n'', JNum 1)])])]),
        [JObj [(''method'', JStr ''POST''), (''url'', JStr ''http://h/api/users''),
               (''headers'', JObj []), (''data'', JObj [(''n'', JNum 1)])]],
        [(''s'', api_source)])"
    by (simp add: fetchApiData_def map_get_def api_source_def request_config_def axios_echo_def Let_def)
  from fetchApiData_attaches_truthy_body
    [where axios = axios_echo and endpoint = "''/users''" and httpMethod = "''GET''"
       and params = JUndefined and body = "JObj [(''n'', JNum 1)]", OF 1 2 3]
  have get: "\<exists>request.
         fst (snd (fetchApiData axios_echo [(''s'', api_source)] ''s'' ''/users'' ''GET'' JUndefined
                     (JObj [(''n'', JNum 1)]))) = [request]
       \<and> own_property request ''data'' = None
       \<and> own_property request ''url'' = Some (JStr ''http://h/api/users'')"
    by auto
  from post get show ?thesis by blast
qed

section \<open>Properties of the relational connector\<close>

text \<open>
  C5, as the specification states it, fails on the path where the database cannot be
  opened: the callback of the open rejects and returns, and no \<^verbatim>\<open>db.close\<close> comes before
  the rejection.
\<close>

theorem querySql_open_failure_counterexample:
  "fst (querySql cannot_open [(''q'', sqlite_source)] ''q'' ''select 1'')
     = Some (Inl (OpenFailed ''SQLITE_CANTOPEN: unable to open database file''))
   \<and> \<not> closed_before_settled (fst (snd (querySql cannot_open [(''q'', sqlite_source)] ''q'' ''select 1'')))"
  by (simp add: querySql_def map_get_def sqlite_source_def cannot_open_def executor_events_def)

text \<open>
  C5, amended. For every registered \<^verbatim>\<open>sqlite\<close> source and whatever the binding reports:
  when the open succeeds and the query returns rows, \<^verbatim>\<open>db.close\<close> is called before the
  promise resolves with the rows; when the open succeeds and the query fails, \<^verbatim>\<open>db.close\<close> is
  called before the promise rejects with \<^verbatim>\<open>Query failed:\<close> and the underlying message; when
  the open fails, the promise rejects with \<^verbatim>\<open>Failed to open database:\<close> and the underlying
  message, and no \<^verbatim>\<open>db.close\<close> is called before that (no connection was opened).
\<close>

theorem querySql_close_before_settling:
  assumes "map_get dataSources sourceName = Some d"
    and "type d = ''sqlite''"
    and "binding (path (config d)) query = (openError, allOutcome)"
  shows "(openError = None \<and> allOutcome = AllRows rows \<longrightarrow>
           fst (querySql binding dataSources sourceName query)
             = Some (Inr (JObj [(''success'', JBool True),
                                (''rowCount'', JNum (of_nat (length rows))),
                                (''data'', JArr rows)]))
           \<and> closed_before_settled (fst (snd (querySql binding dataSources sourceName query))))
       \<and> (openError = None \<and> allOutcome = AllError msg \<longrightarrow>
           fst (querySql binding dataSources sourceName query) = Some (Inl (QueryFailed msg))
           \<and> message (QueryFailed msg) = ''Query failed: '' @ msg
           \<and> closed_before_settled (fst (snd (querySql binding dataSources sourceName query))))
       \<and> (openError = Some msg \<longrightarrow>
           fst (querySql binding dataSources sourceName query) = Some (Inl (OpenFailed msg))
           \<and> message (OpenFailed msg) = ''Failed to open database: '' @ msg
           \<and> \<not> closed_before_settled (fst (snd (querySql binding dataSources sourceName query))))"
  using assms by (simp add: querySql_def executor_events_def)

theorem querySql_close_before_settling_witness:
  "fst (querySql query_fails [(''q'', sqlite_source)] ''q'' ''select nothing'')
     = Some (Inl (QueryFailed ''SQLITE_ERROR: no such column: nothing''))
   \<and> closed_before_settled (fst (snd (querySql query_fails [(''q'', sqlite_source)] ''q'' ''select nothing'')))
   \<and> fst (snd (querySql query_fails [(''q'', sqlite_source)] ''q'' ''select nothing''))
     = [DbOpen (Some ''d.db''), DbAll ''select nothing'', DbClose,
        Reject (QueryFailed ''SQLITE_ERROR: no such column: nothing'')]"
proof -
  have 1: "map_get [(''q'', sqlite_source)] ''q'' = Some sqlite_source"
    by (simp add: map_get_def)
  have 2: "type sqlite_source = ''sqlite''"
    by (simp add: sqlite_source_def)
  have 3: "query_fails (path (config sqlite_source)) ''select nothing''
             = (None, AllError ''SQLITE_ERROR: no such column: nothing'')"
    by (simp add: query_fails_def)
  from querySql_close_before_settling
    [where binding = query_fails and msg = "''SQLITE_ERROR: no such column: nothing''", OF 1 2 3]
  show ?thesis
    by (simp add: querySql_def map_get_def sqlite_source_def query_fails_def executor_events_def)
qed

section \<open>Properties of the delimited-file connector\<close>

lemma the_rows_append: "the_rows (a @ b) = the_rows a @ the_rows b"
  by (induction a rule: the_rows.induct) simp_all

lemma on_data_records:
  "records (on_data proto flt limit r st) = (if keeps proto flt r then records st @ [r] else records st)"
  by (simp add: on_data_def keeps_def Let_def)

lemma on_data_unlimited:
  "limit = None \<or> limit = Some 0 \<Longrightarrow>
   on_data proto flt limit r st = st\<lparr>records := (if keeps proto flt r then records st @ [r] else records st)\<rparr>"
  by (auto simp: on_data_def keeps_def Let_def limit_reached_def)

lemma emit_all_unlimited:
  "limit = None \<or> limit = Some 0 \<Longrightarrow> no_error outs \<Longrightarrow>
   emit_all proto flt limit outs st
     = st\<lparr>records := records st @ filter (keeps proto flt) (the_rows outs)\<rparr>"
proof (induction outs arbitrary: st rule: the_rows.induct)
  case 1
  then show ?case by simp
next
  case (2 r outs)
  then show ?case by (simp add: on_data_unlimited)
next
  case (3 msg outs)
  then show ?case by simp
qed

lemma pump_unlimited:
  "limit = None \<or> limit = Some 0 \<Longrightarrow> list_all no_error chunks \<Longrightarrow> no_error atEnd \<Longrightarrow>
   \<not> destroyed st \<Longrightarrow> \<not> failed st \<Longrightarrow>
   pump proto flt limit chunks atEnd st
     = on_end (st\<lparr>records := records st @ filter (keeps proto flt) (the_rows (concat chunks @ atEnd))\<rparr>)"
proof (induction chunks arbitrary: st)
  case Nil
  then show ?case by (simp add: emit_all_unlimited)
next
  case (Cons chunk chunks)
  then show ?case by (simp add: emit_all_unlimited the_rows_append)
qed

lemma readCsv_unlimited:
  assumes "map_get dataSources sourceName = Some d" and "type d = ''csv''"
    and "createReadStream (path (config d)) = (chunks, atEnd)"
    and "list_all no_error chunks" and "no_error atEnd"
    and "limit = None \<or> limit = Some 0"
  shows "fst (readCsv createReadStream proto dataSources sourceName flt limit)
     = Some (Inr (resolved_with (filter (keeps proto flt) (the_rows (concat chunks @ atEnd)))))"
proof -
  have "pump proto flt limit chunks atEnd initial_state
     = on_end (initial_state\<lparr>records := records initial_state
                 @ filter (keeps proto flt) (the_rows (concat chunks @ atEnd))\<rparr>)"
    using assms by (intro pump_unlimited) (simp_all add: initial_state_def)
  then show ?thesis using assms
    by (simp add: readCsv_def Let_def initial_state_def on_end_def settle_def resolved_with_def)
qed

lemma on_data_zero: "on_data proto flt (Some 0) r st = on_data proto flt None r st"
  by (simp add: on_data_def limit_reached_def)

lemma emit_all_zero: "emit_all proto flt (Some 0) outs st = emit_all proto flt None outs st"
  by (induction outs arbitrary: st rule: the_rows.induct) (simp_all add: on_data_zero)

lemma pump_zero: "pump proto flt (Some 0) chunks atEnd st = pump proto flt None chunks atEnd st"
  by (induction chunks arbitrary: st) (simp_all add: emit_all_zero)

lemma limit_reached_mono: "limit_reached limit n \<Longrightarrow> n \<le> m \<Longrightarrow> limit_reached limit m"
  by (auto simp: limit_reached_def split: option.splits intro: order_trans)

lemma on_data_no_filter:
  "\<not> truthy flt \<Longrightarrow>
   on_data proto flt limit r st
     = st\<lparr>records := records st @ [r],
          destroyed := (limit_reached limit (Suc (length (records st))) \<or> destroyed st)\<rparr>"
  by (simp add: on_data_def Let_def)

lemma emit_all_no_filter_fields:
  "\<not> truthy flt \<Longrightarrow> no_error outs \<Longrightarrow>
   records (emit_all proto flt limit outs st) = records st @ the_rows outs
   \<and> settled (emit_all proto flt limit outs st) = settled st
   \<and> failed (emit_all proto flt limit outs st) = failed st
   \<and> (destroyed st \<longrightarrow> destroyed (emit_all proto flt limit outs st))"
proof (induction outs arbitrary: st rule: the_rows.induct)
  case 1
  then show ?case by simp
next
  case (2 r outs)
  then show ?case by (simp add: on_data_no_filter)
next
  case (3 msg outs)
  then show ?case by simp
qed

lemma emit_all_destroys:
  "\<not> truthy flt \<Longrightarrow> no_error outs \<Longrightarrow> the_rows outs \<noteq> [] \<Longrightarrow>
   limit_reached limit (length (records st) + length (the_rows outs)) \<Longrightarrow>
   destroyed (emit_all proto flt limit outs st)"
proof (induction outs arbitrary: st rule: the_rows.induct)
  case 1
  then show ?case by simp
next
  case (2 r outs)
  show ?case
  proof (cases "the_rows outs = []")
    case True
    with 2 have "destroyed (on_data proto flt limit r st)"
      by (simp add: on_data_no_filter)
    with 2 show ?thesis
      using emit_all_no_filter_fields [of flt outs proto limit "on_data proto flt limit r st"]
      by simp
  next
    case False
    with 2 show ?thesis by (simp add: on_data_no_filter)
  qed
next
  case (3 msg outs)
  then show ?case by simp
qed

lemma pump_pending:
  "\<not> truthy flt \<Longrightarrow> list_all no_error chunks \<Longrightarrow> settled st = None \<Longrightarrow> \<not> failed st \<Longrightarrow>
   destroyed st \<or> (the_rows (concat chunks) \<noteq> []
      \<and> limit_reached limit (length (records st) + length (the_rows (concat chunks)))) \<Longrightarrow>
   settled (pump proto flt limit chunks atEnd st) = None"
proof (induction chunks arbitrary: st)
  case Nil
  then show ?case by simp
next
  case (Cons chunk chunks)
  show ?case
  proof (cases "destroyed st")
    case True
    with Cons.prems show ?thesis by simp
  next
    case False
    let ?st = "emit_all proto flt limit chunk st"
    from Cons.prems have ne: "no_error chunk" and nes: "list_all no_error chunks" by simp_all
    from emit_all_no_filter_fields [OF Cons.prems(1) ne, of proto limit st] Cons.prems
    have f: "records ?st = records st @ the_rows chunk" "settled ?st = None" "\<not> failed ?st"
      by simp_all
    from False Cons.prems(5)
    have r: "the_rows (chunk @ concat chunks) \<noteq> []"
         "limit_reached limit (length (records st) + length (the_rows (chunk @ concat chunks)))"
      by simp_all
    have "destroyed ?st \<or> (the_rows (concat chunks) \<noteq> []
      \<and> limit_reached limit (length (records ?st) + length (the_rows (concat chunks))))"
    proof (cases "the_rows (concat chunks) = []")
      case True
      with r have "the_rows chunk \<noteq> []" "limit_reached limit (length (records st) + length (the_rows chunk))"
        by (simp_all add: the_rows_append)
      then show ?thesis using emit_all_destroys [OF Cons.prems(1) ne] by blast
    next
      case False
      with r f show ?thesis by (simp add: the_rows_append add.assoc)
    qed
    with Cons.IH [OF Cons.prems(1) nes f(2,3)] have "settled (pump proto flt limit chunks atEnd ?st) = None"
      by blast
    with False f Cons.prems show ?thesis by simp
  qed
qed

text \<open>
  With no filter, once a row that arrives in a chunk brings the number of kept rows to a
  positive limit, the call never settles, whatever follows in the file.
\<close>

lemma readCsv_limit_pending:
  assumes "map_get dataSources sourceName = Some d" and "type d = ''csv''"
    and "createReadStream (path (config d)) = (chunks, atEnd)"
    and "list_all no_error chunks"
    and "\<not> truthy flt"
    and "0 < k" and "k \<le> length (the_rows (concat chunks))"
  shows "fst (readCsv createReadStream proto dataSources sourceName flt (Some (of_nat k))) = None"
proof -
  have "limit_reached (Some (of_nat k)) (length (the_rows (concat chunks)))"
    using assms by (simp add: limit_reached_def)
  moreover have "the_rows (concat chunks) \<noteq> []" using assms by auto
  ultimately have "settled (pump proto flt (Some (of_nat k)) chunks atEnd initial_state) = None"
    using assms by (intro pump_pending) (simp_all add: initial_state_def)
  with assms show ?thesis by (simp add: readCsv_def Let_def)
qed

text \<open>
  C2. The code does not do what the claim says. On a file of three rows read with limit 1
  and no filter, \<^verbatim>\<open>stream.destroy()\<close> is called after the first row, but the other two rows
  of the chunk are pushed as well, and the promise never settles: the destroyed file stream
  emits no \<^verbatim>\<open>end\<close>, so the parser never ends and \<^verbatim>\<open>resolve\<close> is never called.
\<close>

theorem readCsv_limit_never_settles:
  "fst (readCsv three_rows no_proto [(''c'', csv_source)] ''c'' JUndefined (Some 1)) = None
   \<and> destroyed (fst (snd (readCsv three_rows no_proto [(''c'', csv_source)] ''c'' JUndefined (Some 1))))
   \<and> records (fst (snd (readCsv three_rows no_proto [(''c'', csv_source)] ''c'' JUndefined (Some 1))))
       = [[(''id'', JStr ''1'')], [(''id'', JStr ''2'')], [(''id'', JStr ''3'')]]"
  by (simp add: readCsv_def map_get_def csv_source_def three_rows_def initial_state_def
      on_data_def limit_reached_def)

text \<open>
  The filter test. The listener keeps a row exactly when the test \<open>keeps\<close> holds: with a filter object,
  when for every entry of the filter the value the row has under the key is strictly equal
  to the value of the entry (all entries, exact equality); with no filter, always. This
  holds for every row, filter, limit and state of the call. When no limit is given and the
  parser does not fail, the call resolves with exactly the kept rows of the file, in order.
\<close>

lemma readCsv_filter_keeps_exact_matches:
  "records (on_data proto flt limit r st) = (if keeps proto flt r then records st @ [r] else records st)
   \<and> (keeps proto (JObj kvs) r \<longleftrightarrow> (\<forall>(k, v) \<in> set kvs. strict_equals (row_get proto r k) v))
   \<and> (\<not> truthy flt \<longrightarrow> keeps proto flt r)
   \<and> (map_get dataSources sourceName = Some d \<and> type d = ''csv''
        \<and> createReadStream (path (config d)) = (chunks, atEnd)
        \<and> list_all no_error chunks \<and> no_error atEnd \<longrightarrow>
      fst (readCsv createReadStream proto dataSources sourceName flt None)
        = Some (Inr (resolved_with (filter (keeps proto flt) (the_rows (concat chunks @ atEnd))))))"
proof (intro conjI impI)
  show "records (on_data proto flt limit r st) = (if keeps proto flt r then records st @ [r] else records st)"
    by (rule on_data_records)
  show "keeps proto (JObj kvs) r \<longleftrightarrow> (\<forall>(k, v) \<in> set kvs. strict_equals (row_get proto r k) v)"
    by (simp add: keeps_def list_all_iff)
  show "keeps proto flt r" if "\<not> truthy flt"
    using that by (simp add: keeps_def)
  show "fst (readCsv createReadStream proto dataSources sourceName flt None)
        = Some (Inr (resolved_with (filter (keeps proto flt) (the_rows (concat chunks @ atEnd)))))"
    if "map_get dataSources sourceName = Some d \<and> type d = ''csv''
        \<and> createReadStream (path (config d)) = (chunks, atEnd)
        \<and> list_all no_error chunks \<and> no_error atEnd"
    using that by (intro readCsv_unlimited [where d = d]) simp_all
qed

lemma readCsv_filter_examples:
  "fst (readCsv three_rows no_proto [(''c'', csv_source)] ''c'' (JObj [(''id'', JStr ''2'')]) None)
     = Some (Inr (resolved_with [[(''id'', JStr ''2'')]]))
   \<and> fst (readCsv three_rows no_proto [(''c'', csv_source)] ''c'' (JObj [(''id'', JNum 2)]) None)
     = Some (Inr (resolved_with []))
   \<and> fst (readCsv three_rows no_proto [(''c'', csv_source)] ''c'' JUndefined None)
     = Some (Inr (resolved_with [[(''id'', JStr ''1'')], [(''id'', JStr ''2'')], [(''id'', JStr ''3'')]]))"
proof -
  have h: "map_get [(''c'', csv_source)] ''c'' = Some csv_source \<and> type csv_source = ''csv''
      \<and> three_rows (path (config csv_source))
          = ([[Row [(''id'', JStr ''1'')], Row [(''id'', JStr ''2'')], Row [(''id'', JStr ''3'')]]], [])
      \<and> list_all no_error [[Row [(''id'', JStr ''1'')], Row [(''id'', JStr ''2'')], Row [(''id'', JStr ''3'')]]]
      \<and> no_error []"
    by (simp add: map_get_def csv_source_def three_rows_def)
  have k: "\<not> truthy JUndefined" by simp
  note t = readCsv_filter_keeps_exact_matches
    [where dataSources = "[(''c'', csv_source)]" and sourceName = "''c''" and d = csv_source
       and createReadStream = three_rows and proto = no_proto and atEnd = "[]"
       and chunks = "[[Row [(''id'', JStr ''1'')], Row [(''id'', JStr ''2'')], Row [(''id'', JStr ''3'')]]]"]
  from t [where flt = "JObj [(''id'', JStr ''2'')]" and kvs = "[(''id'', JStr ''2'')]"]
       t [where flt = "JObj [(''id'', JNum 2)]" and kvs = "[(''id'', JNum 2)]"]
       t [where flt = JUndefined] h k
  show ?thesis
    by (simp add: row_get_def no_proto_def keeps_def)
qed

text \<open>
  C6. The code does not do what the claim says about the limit. The filter test is as the
  claim states it (the lemma above), but rows are not kept only up to the limit: on a file
  of three rows read with no filter and limit 2, the listener pushes all three rows, the
  third after \<^verbatim>\<open>stream.destroy()\<close> has been called, and the promise never settles, so no row is
  returned. This is the defect of C2 seen from the filter side.
\<close>

theorem readCsv_no_filter_exceeds_limit:
  "fst (readCsv three_rows no_proto [(''c'', csv_source)] ''c'' JUndefined (Some 2)) = None
   \<and> destroyed (fst (snd (readCsv three_rows no_proto [(''c'', csv_source)] ''c'' JUndefined (Some 2))))
   \<and> records (fst (snd (readCsv three_rows no_proto [(''c'', csv_source)] ''c'' JUndefined (Some 2))))
       = [[(''id'', JStr ''1'')], [(''id'', JStr ''2'')], [(''id'', JStr ''3'')]]"
  by (simp add: readCsv_def map_get_def csv_source_def three_rows_def initial_state_def
      on_data_def limit_reached_def)

text \<open>
  C10. A limit of 0 is falsy in \<^verbatim>\<open>limit && records.length >= limit\<close>, so the call behaves
  in every respect as with no limit, for every source, file and filter; when the parser
  does not fail it reads the whole file and resolves with every row the filter keeps.
\<close>

theorem readCsv_limit_zero_is_no_limit:
  "readCsv createReadStream proto dataSources sourceName flt (Some 0)
     = readCsv createReadStream proto dataSources sourceName flt None
   \<and> (map_get dataSources sourceName = Some d \<and> type d = ''csv''
        \<and> createReadStream (path (config d)) = (chunks, atEnd)
        \<and> list_all no_error chunks \<and> no_error atEnd \<longrightarrow>
      fst (readCsv createReadStream proto dataSources sourceName flt (Some 0))
        = Some (Inr (resolved_with (filter (keeps proto flt) (the_rows (concat chunks @ atEnd))))))"
proof (intro conjI impI)
  show "readCsv createReadStream proto dataSources sourceName flt (Some 0)
     = readCsv createReadStream proto dataSources sourceName flt None"
    by (simp add: readCsv_def pump_zero Let_def split: option.splits)
  show "fst (readCsv createReadStream proto dataSources sourceName flt (Some 0))
        = Some (Inr (resolved_with (filter (keeps proto flt) (the_rows (concat chunks @ atEnd)))))"
    if "map_get dataSources sourceName = Some d \<and> type d = ''csv''
        \<and> createReadStream (path (config d)) = (chunks, atEnd)
        \<and> list_all no_error chunks \<and> no_error atEnd"
    using that by (intro readCsv_unlimited [where d = d]) simp_all
qed

theorem readCsv_limit_zero_is_no_limit_witness:
  "fst (readCsv three_rows no_proto [(''c'', csv_source)] ''c'' JUndefined (Some 0))
     = Some (Inr (resolved_with [[(''id'', JStr ''1'')], [(''id'', JStr ''2'')], [(''id'', JStr ''3'')]]))
   \<and> fst (readCsv three_rows no_proto [(''c'', csv_source)] ''c'' (JObj [(''id'', JStr ''3'')]) (Some 0))
     = Some (Inr (resolved_with [[(''id'', JStr ''3'')]]))"
proof -
  have h: "map_get [(''c'', csv_source)] ''c'' = Some csv_source \<and> type csv_source = ''csv''
      \<and> three_rows (path (config csv_source))
          = ([[Row [(''id'', JStr ''1'')], Row [(''id'', JStr ''2'')], Row [(''id'', JStr ''3'')]]], [])
      \<and> list_all no_error [[Row [(''id'', JStr ''1'')], Row [(''id'', JStr ''2'')], Row [(''id'', JStr ''3'')]]]
      \<and> no_error []"
    by (simp add: map_get_def csv_source_def three_rows_def)
  note t = readCsv_limit_zero_is_no_limit
    [where dataSources = "[(''c'', csv_source)]" and sourceName = "''c''" and d = csv_source
       and createReadStream = three_rows and proto = no_proto and atEnd = "[]"
       and chunks = "[[Row [(''id'', JStr ''1'')], Row [(''id'', JStr ''2'')], Row [(''id'', JStr ''3'')]]]"]
  from t [where flt = JUndefined, THEN conjunct2]
       t [where flt = "JObj [(''id'', JStr ''3'')]", THEN conjunct2] h
  show ?thesis
    by (simp add: row_get_def no_proto_def keeps_def)
qed

end
